theory Spec2Isabelle
  imports Main
begin

section \<open>Errors (\<open>APIError\<close> and the sentinel errors)\<close>

text \<open>
  \<open>APIError\<close> is the structured error of a non-2xx response. Go's \<open>int\<close> fields are
  modelled as \<open>int\<close>; the only arithmetic on them is in \<open>backoff\<close>, where the 64-bit
  wrap-around is written out.
\<close>

record APIError =
  StatusCode :: int
  Code :: string
  Message :: string
  RetryAfter :: int

text \<open>
  The values of Go's \<open>error\<close> interface that the client handles: the five sentinel
  errors (each \<open>errors.New\<close> call yields a value equal only to itself), a pointer to an
  \<open>APIError\<close>, the context errors, and any other error, carried by its message
  (\<open>errors.New\<close>, \<open>fmt.Errorf\<close>, errors of the transport and of the JSON codec).
\<close>

datatype error =
    ErrNotFound
  | ErrUnauthorized
  | ErrRateLimited
  | ErrForbidden
  | ErrInternal
  | APIErr APIError
  | Canceled
  | DeadlineExceeded
  | Errorf string

text \<open>\<open>func (e *APIError) Is(target error) bool\<close>: a switch on the status code.\<close>

definition Is :: "APIError \<Rightarrow> error \<Rightarrow> bool" where
  "Is e target =
     (if StatusCode e = 401 then target = ErrUnauthorized
      else if StatusCode e = 403 then target = ErrForbidden
      else if StatusCode e = 404 then target = ErrNotFound
      else if StatusCode e = 429 then target = ErrRateLimited
      else if StatusCode e = 500 then target = ErrInternal
      else False)"

section \<open>Retry classifier and backoff policy (\<open>shouldRetry\<close>, \<open>backoff\<close>)\<close>

text \<open>
  \<open>shouldRetry(statusCode, err)\<close>: any non-nil error is retriable; otherwise the switch
  over 429, 500, 502, 503, 504.
\<close>

definition shouldRetry :: "int \<Rightarrow> error option \<Rightarrow> bool" where
  "shouldRetry statusCode err =
     (case err of
        Some _ \<Rightarrow> True
      | None \<Rightarrow>
          (if statusCode = 429 \<or> statusCode = 500 \<or> statusCode = 502
              \<or> statusCode = 503 \<or> statusCode = 504
           then True else False))"

text \<open>
  \<open>time.Duration\<close> is an \<open>int64\<close> count of nanoseconds. \<open>wrap64\<close> is the value an
  \<open>int64\<close> holds after an operation whose mathematical result is \<open>x\<close>.
\<close>

definition wrap64 :: "int \<Rightarrow> int" where
  "wrap64 x = (x + 2 ^ 63) mod 2 ^ 64 - 2 ^ 63"

definition Second :: int where
  "Second = 1000000000"

definition DefaultBaseDelay :: int where
  "DefaultBaseDelay = 1 * Second"

definition maxJitter :: int where
  "maxJitter = 500 * 1000000"

definition DefaultMaxRetries :: int where
  "DefaultMaxRetries = 3"

definition maxBatchSize :: nat where
  "maxBatchSize = 100"

text \<open>
  The duration \<open>backoff\<close> arms its timer with. \<open>jitter\<close> is the draw of
  \<open>rand.Int64N(int64(maxJitter))\<close>, a value in \<open>[0, maxJitter)\<close>. The shift
  \<open>DefaultBaseDelay << attempt\<close> on an \<open>int64\<close> keeps the low 64 bits of
  \<open>DefaultBaseDelay * 2 ^ attempt\<close>; \<open>attempt\<close> comes from \<open>range c.maxRetries\<close> and is
  never negative.
\<close>

definition backoff_delay :: "nat \<Rightarrow> int \<Rightarrow> int \<Rightarrow> int" where
  "backoff_delay attempt retryAfter jitter =
     (let delay = (if retryAfter > 0 then wrap64 (retryAfter * Second)
                   else wrap64 (DefaultBaseDelay * 2 ^ attempt))
      in wrap64 (delay + jitter))"

section \<open>Resilient request executor (\<open>do\<close>)\<close>

text \<open>
  What the standard library contributes to \<open>do\<close>, taken as parameters:
  \<open>json.Marshal\<close> of the body, \<open>json.Unmarshal\<close> into the requested result (a failure
  comes with what the decoder has written into the result before it, \<open>None\<close> when it
  has written nothing), \<open>json.Unmarshal\<close> into an \<open>APIError\<close> (only \<open>Code\<close> and \<open>Message\<close> carry JSON tags; the
  decoding error is discarded by the caller), \<open>http.StatusText\<close>, \<open>strconv.Atoi\<close>, and
  the outcome of \<open>http.NewRequestWithContext\<close> for the method and URL of the call.
\<close>

record ('b, 'r) lib =
  Marshal :: "'b \<Rightarrow> error + string"
  Unmarshal :: "string \<Rightarrow> (error \<times> 'r option) + 'r"
  UnmarshalAPIError :: "string \<Rightarrow> string \<times> string"
  StatusText :: "int \<Rightarrow> string"
  Atoi :: "string \<Rightarrow> error + int"
  NewRequest :: "error option"

text \<open>
  The outcome of one network round trip: \<open>httpClient.Do\<close> fails, or a response
  arrives with its status code and \<open>io.ReadAll\<close> of its body fails, or a response is
  read in full (status code, value of the \<open>Retry-After\<close> header, empty when the header
  is absent, and body).
\<close>

datatype reply =
    TransportError error
  | ReadError int error
  | Response int string string

text \<open>
  What the environment supplies to the \<open>attempt\<close>-th iteration of the loop: the value of
  \<open>ctx.Err()\<close> at its head, the outcome of the round trip, and the jitter drawn by
  \<open>backoff\<close>.
\<close>

record round =
  ctxErr :: "error option"
  reply :: reply
  jitter :: int

text \<open>
  The observable actions of \<open>do\<close>: a request sent by \<open>httpClient.Do\<close>, and a wait in
  \<open>backoff\<close> on a timer armed with the given duration (the wait ends when the timer
  fires or the context is done).
\<close>

datatype action = Send | Sleep int

text \<open>
  What a call of \<open>do\<close> yields: the returned error (\<open>None\<close> for \<open>nil\<close>), the value decoded
  into \<open>result\<close>, in full or up to a decoding error (\<open>None\<close> when \<open>result\<close> is left
  untouched), and the actions in order.
\<close>

record 'r do_result =
  ret :: "error option"
  decoded :: "'r option"
  actions :: "action list"

definition returning :: "error option \<Rightarrow> 'r option \<Rightarrow> action list \<Rightarrow> 'r do_result" where
  "returning e v as = \<lparr>ret = e, decoded = v, actions = as\<rparr>"

definition after :: "action list \<Rightarrow> 'r do_result \<Rightarrow> 'r do_result" where
  "after as r = r\<lparr>actions := as @ actions r\<rparr>"

text \<open>The \<open>APIError\<close> that \<open>do\<close> builds from a response outside the 2xx range.\<close>

definition newAPIError :: "('b, 'r) lib \<Rightarrow> int \<Rightarrow> string \<Rightarrow> string \<Rightarrow> APIError" where
  "newAPIError L status ra respBody =
     (let cm = (if respBody \<noteq> [] then UnmarshalAPIError L respBody else ([], []));
          msg = (if snd cm = [] then StatusText L status else snd cm);
          hint = (if status = 429 \<and> ra \<noteq> []
                  then (case Atoi L ra of Inr seconds \<Rightarrow> seconds | Inl _ \<Rightarrow> 0)
                  else 0)
      in \<lparr>StatusCode = status, Code = fst cm, Message = msg, RetryAfter = hint\<rparr>)"

text \<open>
  The loop \<open>for attempt := range c.maxRetries\<close>: the first numeric argument counts the
  iterations that remain, \<open>attempt\<close> is the loop variable, \<open>lastErr\<close> the variable of that
  name. \<open>want\<close> says that \<open>result\<close> is not \<open>nil\<close>.
\<close>

fun do_loop ::
  "('b, 'r) lib \<Rightarrow> bool \<Rightarrow> (nat \<Rightarrow> round) \<Rightarrow> nat \<Rightarrow> nat \<Rightarrow> error option \<Rightarrow> 'r do_result" where
  "do_loop L want rs 0 attempt lastErr = returning lastErr None []"
| "do_loop L want rs (Suc k) attempt lastErr =
     (case ctxErr (rs attempt) of
        Some err \<Rightarrow> returning (Some err) None []
      | None \<Rightarrow>
     (case NewRequest L of
        Some err \<Rightarrow> returning (Some err) None []
      | None \<Rightarrow>
     (case reply (rs attempt) of
        TransportError err \<Rightarrow>
          if \<not> shouldRetry 0 (Some err) then returning (Some err) None [Send]
          else after [Send, Sleep (backoff_delay attempt 0 (jitter (rs attempt)))]
                 (do_loop L want rs k (Suc attempt) (Some err))
      | ReadError status err \<Rightarrow> returning (Some err) None [Send]
      | Response status ra respBody \<Rightarrow>
          if 200 \<le> status \<and> status < 300 then
            (if want \<and> respBody \<noteq> [] then
               (case Unmarshal L respBody of
                  Inl (err, written) \<Rightarrow> returning (Some err) written [Send]
                | Inr v \<Rightarrow> returning None (Some v) [Send])
             else returning None None [Send])
          else
            (let apiErr = newAPIError L status ra respBody in
             if \<not> shouldRetry status None then returning (Some (APIErr apiErr)) None [Send]
             else after [Send, Sleep (backoff_delay attempt (RetryAfter apiErr) (jitter (rs attempt)))]
                    (do_loop L want rs k (Suc attempt) (Some (APIErr apiErr)))))))"

text \<open>
  The head of \<open>do\<close>: the body, when there is one, is serialised once, and a failure
  of \<open>json.Marshal\<close> is returned at once.
\<close>

definition marshalBody :: "('b, 'r) lib \<Rightarrow> 'b option \<Rightarrow> error + string option" where
  "marshalBody L body =
     (case body of
        None \<Rightarrow> Inr None
      | Some b \<Rightarrow> (case Marshal L b of Inl err \<Rightarrow> Inl err | Inr bodyData \<Rightarrow> Inr (Some bodyData)))"

text \<open>
  \<open>do\<close>: \<open>range n\<close> runs no iteration for \<open>n \<le> 0\<close> and \<open>n\<close> iterations otherwise.
\<close>

definition do ::
  "('b, 'r) lib \<Rightarrow> int \<Rightarrow> 'b option \<Rightarrow> bool \<Rightarrow> (nat \<Rightarrow> round) \<Rightarrow> 'r do_result" where
  "do L maxRetries body want rs =
     (case marshalBody L body of
        Inl err \<Rightarrow> returning (Some err) None []
      | Inr bodyData \<Rightarrow> do_loop L want rs (nat maxRetries) 0 None)"

section \<open>Paged fetcher (\<open>iterate\<close>)\<close>

text \<open>
  A page as \<open>List\<close> decodes it. The element type is left open: \<open>iterate\<close> hands the
  records on without reading them.
\<close>

record 'l ListResult =
  Leads :: "'l list"
  Count :: int
  HasMore :: bool
  NextCursor :: string

text \<open>
  The options of \<open>List\<close> (\<open>Limit\<close>, \<open>Cursor\<close>, \<open>Sort\<close> with field and order, and a filter
  by its query token), and \<open>listConfig\<close> with the \<open>apply\<close> method of each option (\<open>applyOption\<close>).
\<close>

datatype ListOption =
    Limit int
  | Cursor string
  | Sort string string
  | Filter string

record listConfig =
  limit :: int
  cursor :: string
  sortBy :: string
  sortOrder :: string
  filters :: "string list"

fun applyOption :: "ListOption \<Rightarrow> listConfig \<Rightarrow> listConfig" where
  "applyOption (Limit n) cfg = cfg\<lparr>limit := n\<rparr>"
| "applyOption (Cursor c) cfg = cfg\<lparr>cursor := c\<rparr>"
| "applyOption (Sort field ord) cfg = cfg\<lparr>sortBy := field, sortOrder := ord\<rparr>"
| "applyOption (Filter f) cfg = cfg\<lparr>filters := filters cfg @ [f]\<rparr>"

text \<open>The configuration \<open>List\<close> builds: the options applied in order to the zero value.\<close>

definition listConfig_of :: "ListOption list \<Rightarrow> listConfig" where
  "listConfig_of opts =
     foldl (\<lambda>cfg opt. applyOption opt cfg) \<lparr>limit = 0, cursor = [], sortBy = [], sortOrder = [], filters = []\<rparr> opts"

text \<open>
  What \<open>iterate\<close> does, in order: a call of \<open>List\<close> with the given options, and a call
  of \<open>yield\<close> with a record (\<open>Inr\<close>) or with an error (\<open>Inl\<close>).
\<close>

datatype 'l emission = Page "ListOption list" | Yield "error + 'l"

text \<open>
  The inner loop \<open>for i := range result.Leads\<close>. The consumer is the function \<open>yield\<close>:
  given the items it has received so far, the last one being the current one, it says
  whether it wants more. The result holds the items handed over and whether the loop
  ran to its end.
\<close>

fun yield_all ::
  "((error + 'l) list \<Rightarrow> bool) \<Rightarrow> (error + 'l) list \<Rightarrow> 'l list \<Rightarrow> (error + 'l) list \<times> bool" where
  "yield_all yield seen [] = ([], True)"
| "yield_all yield seen (x # xs) =
     (if \<not> yield (seen @ [Inr x]) then ([Inr x], False)
      else (case yield_all yield (seen @ [Inr x]) xs of
              (given, finished) \<Rightarrow> (Inr x # given, finished)))"

text \<open>
  The options \<open>iterate\<close> passes to \<open>List\<close>: the caller's, followed by the cursor when
  it is not empty.
\<close>

definition listOpts :: "ListOption list \<Rightarrow> string \<Rightarrow> ListOption list" where
  "listOpts opts cur = (if cur \<noteq> [] then opts @ [Cursor cur] else opts)"

text \<open>
  The loop of \<open>iterate\<close>, with the current cursor. The results of the successive calls
  of \<open>c.List\<close> are given as a list, one element consumed by each call; \<open>None\<close> says that
  the loop asked for a page beyond the given ones, so that what it does after is not
  determined by them.
\<close>

fun iterate_loop ::
  "((error + 'l) list \<Rightarrow> bool) \<Rightarrow> ListOption list \<Rightarrow> (error + 'l ListResult) list
     \<Rightarrow> string \<Rightarrow> (error + 'l) list \<Rightarrow> 'l emission list option" where
  "iterate_loop yield opts [] cur seen = None"
| "iterate_loop yield opts (p # ps) cur seen =
     (case p of
        Inl err \<Rightarrow> Some [Page (listOpts opts cur), Yield (Inl err)]
      | Inr result \<Rightarrow>
          (case yield_all yield seen (Leads result) of
             (given, finished) \<Rightarrow>
               if \<not> finished then Some (Page (listOpts opts cur) # map Yield given)
               else if \<not> HasMore result then Some (Page (listOpts opts cur) # map Yield given)
               else map_option (\<lambda>rest. Page (listOpts opts cur) # map Yield given @ rest)
                      (iterate_loop yield opts ps (NextCursor result) (seen @ given))))"

text \<open>\<open>iterate\<close>: the loop entered with the empty cursor.\<close>

definition iterate ::
  "((error + 'l) list \<Rightarrow> bool) \<Rightarrow> ListOption list \<Rightarrow> (error + 'l ListResult) list
     \<Rightarrow> 'l emission list option" where
  "iterate yield opts pages = iterate_loop yield opts pages [] []"

text \<open>The items a run hands to the consumer and the page requests it makes.\<close>

fun items :: "'l emission list \<Rightarrow> (error + 'l) list" where
  "items [] = []"
| "items (Page opts # es) = items es"
| "items (Yield x # es) = x # items es"

fun requests :: "'l emission list \<Rightarrow> ListOption list list" where
  "requests [] = []"
| "requests (Page opts # es) = opts # requests es"
| "requests (Yield x # es) = requests es"

section \<open>Bulk creation (\<open>BulkCreate\<close>)\<close>

text \<open>
  Of a \<open>Lead\<close> the client reads \<open>Name\<close> and \<open>Source\<close> only; the other fields are carried
  to the codec unread and are left out. A \<open>*Lead\<close> is a \<open>Lead option\<close>, \<open>None\<close> being the
  \<open>nil\<close> pointer.
\<close>

record Lead =
  ID :: string
  Name :: string
  Source :: string

text \<open>
  The results of a bulk creation. Field names are unique across the records of a
  theory: \<open>LeadID\<close> is the field \<open>ID\<close> of \<open>BulkLeadResult\<close>, \<open>ErrIndex\<close> and \<open>ErrMessage\<close> are
  the fields \<open>Index\<close> and \<open>Message\<close> of \<open>BulkLeadError\<close>; \<open>CreatedAt\<close> is the Unix time.
\<close>

record BulkLeadResult =
  Index :: int
  LeadID :: string
  CreatedAt :: int

record BulkLeadError =
  ErrIndex :: int
  ErrMessage :: string

record BulkCreateResult =
  Total :: int
  Success :: int
  Failed :: int
  Created :: "BulkLeadResult list"
  Errors :: "BulkLeadError list"

text \<open>The zero value that \<open>var result BulkCreateResult\<close> holds before \<open>do\<close> decodes into it.\<close>

definition zeroBulkCreateResult :: BulkCreateResult where
  "zeroBulkCreateResult = \<lparr>Total = 0, Success = 0, Failed = 0, Created = [], Errors = []\<rparr>"

text \<open>The verb \<open>%d\<close> of \<open>fmt\<close>: an integer in decimal.\<close>

fun digits :: "nat \<Rightarrow> string" where
  "digits n =
     (if n < 10 then [char_of (48 + n)]
      else digits (n div 10) @ [char_of (48 + n mod 10)])"

declare digits.simps [simp del]

definition itoa :: "int \<Rightarrow> string" where
  "itoa i = (if i < 0 then CHR ''-'' # digits (nat (- i)) else digits (nat i))"

text \<open>A function of the program either returns or panics (on a \<open>nil\<close> dereference).\<close>

datatype 'a outcome = Panic | Return 'a

text \<open>
  The validation loop of \<open>BulkCreate\<close>, \<open>for i, lead := range leads\<close>, from index \<open>i\<close> on:
  the first lead without a name or without a source ends it with an error.
\<close>

fun checkLeads :: "nat \<Rightarrow> Lead option list \<Rightarrow> error option outcome" where
  "checkLeads i [] = Return None"
| "checkLeads i (None # leads) = Panic"
| "checkLeads i (Some lead # leads) =
     (if Name lead = [] then
        Return (Some (Errorf (''leadsdb: lead at index '' @ itoa (int i) @ '': name is required'')))
      else if Source lead = [] then
        Return (Some (Errorf (''leadsdb: lead at index '' @ itoa (int i) @ '': source is required'')))
      else checkLeads (Suc i) leads)"

text \<open>
  \<open>BulkCreate\<close>, on a client with the given codec and \<open>maxRetries\<close>; \<open>rs\<close> is what the
  environment supplies to its call of \<open>do\<close>.
\<close>

definition BulkCreate ::
  "(Lead option list, BulkCreateResult) lib \<Rightarrow> int \<Rightarrow> (nat \<Rightarrow> round) \<Rightarrow> Lead option list
     \<Rightarrow> (error + BulkCreateResult) outcome" where
  "BulkCreate L maxRetries rs leads =
     (if length leads = 0 then Return (Inl (Errorf ''leadsdb: leads is required''))
      else if length leads > maxBatchSize then Return (Inl (Errorf ''leadsdb: maximum 100 leads allowed''))
      else
        (case checkLeads 0 leads of
           Panic \<Rightarrow> Panic
         | Return (Some err) \<Rightarrow> Return (Inl err)
         | Return None \<Rightarrow>
             (let r = do L maxRetries (Some leads) True rs in
              case ret r of
                Some err \<Rightarrow> Return (Inl err)
              | None \<Rightarrow>
                  Return (Inr (case decoded r of None \<Rightarrow> zeroBulkCreateResult | Some result \<Rightarrow> result)))))"

section \<open>Streaming batcher (\<open>BulkCreateFromChan\<close>)\<close>

text \<open>
  A \<open>select\<close> between a send on an outlet and \<open>ctx.Done()\<close> either completes the send or
  takes the cancellation branch. For one run of \<open>flush\<close> the environment fixes how many
  sends complete before a \<open>select\<close> takes the cancellation branch: \<open>None\<close> when none ever
  does, \<open>Some k\<close> when the first \<open>k\<close> sends complete and the next \<open>select\<close> is lost.
\<close>

definition sent :: "nat option \<Rightarrow> 'a list \<Rightarrow> 'a list" where
  "sent budget xs = (case budget of None \<Rightarrow> xs | Some k \<Rightarrow> take k xs)"

definition lost :: "nat option \<Rightarrow> 'a list \<Rightarrow> bool" where
  "lost budget xs = (case budget of None \<Rightarrow> False | Some k \<Rightarrow> k < length xs)"

definition left :: "nat option \<Rightarrow> 'a list \<Rightarrow> nat option" where
  "left budget xs = (case budget of None \<Rightarrow> None | Some k \<Rightarrow> Some (k - length xs))"

text \<open>What the environment supplies to one run of \<open>flush\<close>.\<close>

record flush_env =
  rounds :: "nat \<Rightarrow> round"
  sends :: "nat option"

datatype phase = Running | Finished | Panicked

text \<open>
  The state of the goroutine: the pending \<open>batch\<close>, whether the timer is armed, what has
  been sent on the two outlets, the batches handed to \<open>BulkCreate\<close> so far, and whether
  the goroutine runs, has returned (both outlets closed) or has panicked.
\<close>

record batcher =
  batch :: "Lead option list"
  armed :: bool
  results :: "BulkLeadResult list"
  errs :: "error list"
  calls :: "Lead option list list"
  phase :: phase

definition start :: batcher where
  "start = \<lparr>batch = [], armed = False, results = [], errs = [], calls = [], phase = Running\<rparr>"

text \<open>The error \<open>fmt.Errorf("index %d: %s", ...)\<close> sent for a per-record failure.\<close>

definition indexError :: "BulkLeadError \<Rightarrow> error" where
  "indexError e = Errorf (''index '' @ itoa (ErrIndex e) @ '': '' @ ErrMessage e)"

text \<open>The closure \<open>flush\<close>.\<close>

definition flush ::
  "(Lead option list, BulkCreateResult) lib \<Rightarrow> int \<Rightarrow> flush_env \<Rightarrow> batcher \<Rightarrow> batcher" where
  "flush L maxRetries env s =
     (if length (batch s) = 0 then s
      else
        (case BulkCreate L maxRetries (rounds env) (batch s) of
           Panic \<Rightarrow> s\<lparr>calls := calls s @ [batch s], phase := Panicked\<rparr>
         | Return (Inl err) \<Rightarrow>
             s\<lparr>errs := errs s @ sent (sends env) [err], calls := calls s @ [batch s], batch := []\<rparr>
         | Return (Inr result) \<Rightarrow>
             (let s1 = s\<lparr>results := results s @ sent (sends env) (Created result),
                         calls := calls s @ [batch s]\<rparr>
              in if lost (sends env) (Created result) then s1
                 else
                   (let budget = left (sends env) (Created result);
                        s2 = s1\<lparr>errs := errs s1 @ sent budget (map indexError (Errors result))\<rparr>
                    in if lost budget (Errors result) then s2
                       else s2\<lparr>batch := []\<rparr>))))"

text \<open>
  The cases a \<open>select\<close> of the main loop can take, each with what the environment
  supplies to the run of \<open>flush\<close> it may start: the context is done, the timer fires, a
  lead is received, the input channel is closed.
\<close>

datatype event =
    CtxDone
  | TimerFired flush_env
  | Received "Lead option" flush_env
  | Closed flush_env

text \<open>
  One iteration of the main loop. The timer channel delivers only while the timer is
  armed; a goroutine that has returned or panicked takes no further step.
\<close>

fun step ::
  "(Lead option list, BulkCreateResult) lib \<Rightarrow> int \<Rightarrow> batcher \<Rightarrow> event \<Rightarrow> batcher" where
  "step L maxRetries s CtxDone =
     (if phase s \<noteq> Running then s else s\<lparr>armed := False, phase := Finished\<rparr>)"
| "step L maxRetries s (TimerFired env) =
     (if phase s \<noteq> Running \<or> \<not> armed s then s
      else flush L maxRetries env (s\<lparr>armed := False\<rparr>))"
| "step L maxRetries s (Closed env) =
     (if phase s \<noteq> Running then s
      else (let s' = flush L maxRetries env (s\<lparr>armed := False\<rparr>)
            in if phase s' = Panicked then s' else s'\<lparr>phase := Finished\<rparr>))"
| "step L maxRetries s (Received lead env) =
     (if phase s \<noteq> Running then s
      else
        (let s1 = s\<lparr>batch := batch s @ [lead]\<rparr>;
             s2 = (if length (batch s1) = 1 then s1\<lparr>armed := True\<rparr> else s1)
         in if length (batch s2) \<ge> maxBatchSize then flush L maxRetries env (s2\<lparr>armed := False\<rparr>)
            else s2))"

text \<open>
  The goroutine of \<open>BulkCreateFromChan\<close>, from its initial state through a sequence of
  events.
\<close>

definition BulkCreateFromChan ::
  "(Lead option list, BulkCreateResult) lib \<Rightarrow> int \<Rightarrow> event list \<Rightarrow> batcher" where
  "BulkCreateFromChan L maxRetries evs = foldl (step L maxRetries) start evs"

section \<open>Instances of the library parameters\<close>

text \<open>
  Concrete library functions, on which the model is evaluated: the table of
  \<open>http.StatusText\<close> (the empty string for a code it does not hold), and decimal
  parsing in the manner of \<open>strconv.Atoi\<close> (an optional sign, then digits only, within
  64 bits).
\<close>

definition statusText :: "int \<Rightarrow> string" where
  "statusText code =
     (if code = 100 then ''Continue''
      else if code = 101 then ''Switching Protocols''
      else if code = 102 then ''Processing''
      else if code = 103 then ''Early Hints''
      else if code = 200 then ''OK''
      else if code = 201 then ''Created''
      else if code = 202 then ''Accepted''
      else if code = 203 then ''Non-Authoritative Information''
      else if code = 204 then ''No Content''
      else if code = 205 then ''Reset Content''
      else if code = 206 then ''Partial Content''
      else if code = 207 then ''Multi-Status''
      else if code = 208 then ''Already Reported''
      else if code = 226 then ''IM Used''
      else if code = 300 then ''Multiple Choices''
      else if code = 301 then ''Moved Permanently''
      else if code = 302 then ''Found''
      else if code = 303 then ''See Other''
      else if code = 304 then ''Not Modified''
      else if code = 305 then ''Use Proxy''
      else if code = 307 then ''Temporary Redirect''
      else if code = 308 then ''Permanent Redirect''
      else if code = 400 then ''Bad Request''
      else if code = 401 then ''Unauthorized''
      else if code = 402 then ''Payment Required''
      else if code = 403 then ''Forbidden''
      else if code = 404 then ''Not Found''
      else if code = 405 then ''Method Not Allowed''
      else if code = 406 then ''Not Acceptable''
      else if code = 407 then ''Proxy Authentication Required''
      else if code = 408 then ''Request Timeout''
      else if code = 409 then ''Conflict''
      else if code = 410 then ''Gone''
      else if code = 411 then ''Length Required''
      else if code = 412 then ''Precondition Failed''
      else if code = 413 then ''Request Entity Too Large''
      else if code = 414 then ''Request URI Too Long''
      else if code = 415 then ''Unsupported Media Type''
      else if code = 416 then ''Requested Range Not Satisfiable''
      else if code = 417 then ''Expectation Failed''
      else if code = 418 then ''I'' @ [char_of (39::nat)] @ ''m a teapot''
      else if code = 421 then ''Misdirected Request''
      else if code = 422 then ''Unprocessable Entity''
      else if code = 423 then ''Locked''
      else if code = 424 then ''Failed Dependency''
      else if code = 425 then ''Too Early''
      else if code = 426 then ''Upgrade Required''
      else if code = 428 then ''Precondition Required''
      else if code = 429 then ''Too Many Requests''
      else if code = 431 then ''Request Header Fields Too Large''
      else if code = 451 then ''Unavailable For Legal Reasons''
      else if code = 500 then ''Internal Server Error''
      else if code = 501 then ''Not Implemented''
      else if code = 502 then ''Bad Gateway''
      else if code = 503 then ''Service Unavailable''
      else if code = 504 then ''Gateway Timeout''
      else if code = 505 then ''HTTP Version Not Supported''
      else if code = 506 then ''Variant Also Negotiates''
      else if code = 507 then ''Insufficient Storage''
      else if code = 508 then ''Loop Detected''
      else if code = 510 then ''Not Extended''
      else if code = 511 then ''Network Authentication Required''
      else [])"

fun atoi_digits :: "int \<Rightarrow> string \<Rightarrow> int option" where
  "atoi_digits acc [] = Some acc"
| "atoi_digits acc (c # cs) =
     (if (48::nat) \<le> of_char c \<and> (of_char c :: nat) \<le> 57
      then atoi_digits (10 * acc + (int (of_char c) - 48)) cs
      else None)"

definition atoi :: "string \<Rightarrow> error + int" where
  "atoi s =
     (let neg = (s \<noteq> [] \<and> hd s = CHR ''-'');
          ds = (if s \<noteq> [] \<and> (hd s = CHR ''-'' \<or> hd s = CHR ''+'') then tl s else s)
      in if ds = [] then Inl (Errorf ''strconv.Atoi: invalid syntax'')
         else
           (case atoi_digits 0 ds of
              None \<Rightarrow> Inl (Errorf ''strconv.Atoi: invalid syntax'')
            | Some n \<Rightarrow>
                (let v = (if neg then - n else n)
                 in if v < - (2 ^ 63) \<or> 2 ^ 63 \<le> v
                    then Inl (Errorf ''strconv.Atoi: value out of range'')
                    else Inr v)))"

text \<open>
  A codec from a given \<open>json.Marshal\<close> and \<open>json.Unmarshal\<close>, with error bodies that
  carry neither code nor message and a request that can always be built.
\<close>

definition codec ::
  "('b \<Rightarrow> error + string) \<Rightarrow> (string \<Rightarrow> (error \<times> 'r option) + 'r) \<Rightarrow> ('b, 'r) lib" where
  "codec m u =
     \<lparr>Marshal = m, Unmarshal = u, UnmarshalAPIError = (\<lambda>respBody. ([], [])),
      StatusText = statusText, Atoi = atoi, NewRequest = None\<rparr>"

text \<open>An environment in which the context is never done and every round trip ends alike.\<close>

definition always :: "reply \<Rightarrow> int \<Rightarrow> nat \<Rightarrow> round" where
  "always r j = (\<lambda>attempt. \<lparr>ctxErr = None, reply = r, jitter = j\<rparr>)"

text \<open>
  Instances of \<open>json.Marshal\<close> and \<open>json.Unmarshal\<close>: a body that serialises, a body
  that does not (as a \<open>Lead\<close> whose rating is not a number), and a response body that
  decodes to a given value.
\<close>

definition accepting :: "'b \<Rightarrow> error + string" where
  "accepting b = Inr ''{}''"

definition rejecting :: "'b \<Rightarrow> error + string" where
  "rejecting b = Inl (Errorf ''json: unsupported value: NaN'')"

definition decoding :: "'r \<Rightarrow> string \<Rightarrow> (error \<times> 'r option) + 'r" where
  "decoding v respBody = Inr v"

text \<open>An error body whose JSON carries the given code and message.\<close>

definition carrying :: "string \<Rightarrow> string \<Rightarrow> string \<Rightarrow> string \<times> string" where
  "carrying c m respBody = (c, m)"

text \<open>A consumer that takes every item: its \<open>yield\<close> always returns \<open>true\<close>.\<close>

definition takes_all :: "(error + 'l) list \<Rightarrow> bool" where
  "takes_all seen = True"

section \<open>Notions used in the statements\<close>

text \<open>
  A round trip that fails in a way the classifier deems retriable: a transport error,
  or a response outside the 2xx range with a retriable status code.
\<close>

definition failed_retriably :: "reply \<Rightarrow> bool" where
  "failed_retriably r =
     (case r of
        TransportError err \<Rightarrow> shouldRetry 0 (Some err)
      | ReadError status err \<Rightarrow> False
      | Response status ra respBody \<Rightarrow> \<not> (200 \<le> status \<and> status < 300) \<and> shouldRetry status None)"

text \<open>The error a failed round trip leaves in \<open>lastErr\<close>, and the hint it passes to \<open>backoff\<close>.\<close>

definition observed :: "('b, 'r) lib \<Rightarrow> reply \<Rightarrow> error" where
  "observed L r =
     (case r of
        TransportError err \<Rightarrow> err
      | ReadError status err \<Rightarrow> err
      | Response status ra respBody \<Rightarrow> APIErr (newAPIError L status ra respBody))"

definition hint :: "('b, 'r) lib \<Rightarrow> reply \<Rightarrow> int" where
  "hint L r =
     (case r of
        TransportError err \<Rightarrow> 0
      | ReadError status err \<Rightarrow> 0
      | Response status ra respBody \<Rightarrow> RetryAfter (newAPIError L status ra respBody))"

text \<open>A request followed by the backoff wait of that attempt.\<close>

definition send_and_wait :: "('b, 'r) lib \<Rightarrow> (nat \<Rightarrow> round) \<Rightarrow> nat \<Rightarrow> action list" where
  "send_and_wait L rs a = [Send, Sleep (backoff_delay a (hint L (reply (rs a))) (jitter (rs a)))]"

text \<open>
  The run over pages delivered in full: each page is requested with the cursor of the
  page before it, and its records follow in the order of the page.
\<close>

fun in_full :: "ListOption list \<Rightarrow> string \<Rightarrow> 'l ListResult list \<Rightarrow> 'l emission list" where
  "in_full opts cur [] = []"
| "in_full opts cur (r # rs) =
     Page (listOpts opts cur) # map (\<lambda>x. Yield (Inr x)) (Leads r) @ in_full opts (NextCursor r) rs"

text \<open>The cursor in force after a sequence of pages.\<close>

fun cursor_after :: "string \<Rightarrow> 'l ListResult list \<Rightarrow> string" where
  "cursor_after cur [] = cur"
| "cursor_after cur (r # rs) = cursor_after (NextCursor r) rs"

text \<open>
  An event in whose run of \<open>flush\<close> every send on an outlet completes, none being
  pre-empted by cancellation.
\<close>

fun uncancelled :: "event \<Rightarrow> bool" where
  "uncancelled CtxDone = True"
| "uncancelled (TimerFired env) = (sends env = None)"
| "uncancelled (Received lead env) = (sends env = None)"
| "uncancelled (Closed env) = (sends env = None)"

text \<open>
  The three triggers of a flush of a non-empty batch: the timer fires, the input
  channel is closed, a received lead fills the batch. \<open>pending\<close> is the batch at that
  moment.
\<close>

fun triggers :: "batcher \<Rightarrow> event \<Rightarrow> bool" where
  "triggers s CtxDone = False"
| "triggers s (TimerFired env) = (armed s \<and> batch s \<noteq> [])"
| "triggers s (Closed env) = (batch s \<noteq> [])"
| "triggers s (Received lead env) = (Suc (length (batch s)) \<ge> maxBatchSize)"

fun pending :: "batcher \<Rightarrow> event \<Rightarrow> Lead option list" where
  "pending s (Received lead env) = batch s @ [lead]"
| "pending s ev = batch s"

text \<open>
  The capacity bound of the pending batch: at most \<open>maxBatchSize\<close> leads, and fewer at
  the head of the loop of a running goroutine.
\<close>

definition within_capacity :: "batcher \<Rightarrow> bool" where
  "within_capacity s \<longleftrightarrow> length (batch s) \<le> maxBatchSize
            \<and> (phase s = Running \<longrightarrow> length (batch s) < maxBatchSize)"

section \<open>Verified properties\<close>

subsection \<open>Error categories\<close>

text \<open>
  C9. An \<open>APIError\<close> matches a named category exactly by its status code: not-found for
  404, unauthorized for 401, forbidden for 403, rate-limited for 429, internal for 500;
  its code and message text play no part.
\<close>

theorem APIError_Is_by_status:
  "(Is e ErrNotFound \<longleftrightarrow> StatusCode e = 404)
   \<and> (Is e ErrUnauthorized \<longleftrightarrow> StatusCode e = 401)
   \<and> (Is e ErrForbidden \<longleftrightarrow> StatusCode e = 403)
   \<and> (Is e ErrRateLimited \<longleftrightarrow> StatusCode e = 429)
   \<and> (Is e ErrInternal \<longleftrightarrow> StatusCode e = 500)
   \<and> Is (e\<lparr>Code := c, Message := m\<rparr>) target = Is e target"
  by (simp add: Is_def)

subsection \<open>Retry classifier\<close>

text \<open>
  C3. \<open>shouldRetry\<close> is true for every non-nil error whatever the status code; with no
  error it is true exactly for 429, 500, 502, 503 and 504, hence false for every other
  code, among them every 4xx other than 429.
\<close>

theorem shouldRetry_classifies:
  "shouldRetry sc (Some e)
   \<and> (shouldRetry sc None \<longleftrightarrow> sc = 429 \<or> sc = 500 \<or> sc = 502 \<or> sc = 503 \<or> sc = 504)
   \<and> (400 \<le> sc \<and> sc < 500 \<and> sc \<noteq> 429 \<longrightarrow> \<not> shouldRetry sc None)"
  by (simp add: shouldRetry_def)

theorem shouldRetry_classifies_witness:
  "shouldRetry 404 (Some (Errorf ''connection refused'')) \<and> shouldRetry 503 None
   \<and> \<not> shouldRetry 404 None"
  using shouldRetry_classifies [of 404 "Errorf ''connection refused''"]
    shouldRetry_classifies [of 503]
  by simp

subsection \<open>Backoff policy\<close>

lemma wrap64_id: "- (2 ^ 63) \<le> x \<Longrightarrow> x < 2 ^ 63 \<Longrightarrow> wrap64 x = x"
  unfolding wrap64_def by (simp add: mod_pos_pos_trivial)

lemma base_delay_range:
  assumes "attempt \<le> 33"
  shows "0 < DefaultBaseDelay * 2 ^ attempt
       \<and> DefaultBaseDelay * 2 ^ attempt \<le> 8589934592000000000"
proof -
  have "(2::int) ^ attempt \<le> 2 ^ 33"
    using assms by (intro power_increasing) simp_all
  then have "1000000000 * (2::int) ^ attempt \<le> 1000000000 * 2 ^ 33"
    by (rule mult_left_mono) simp
  then show ?thesis
    by (simp add: DefaultBaseDelay_def Second_def)
qed

text \<open>
  C4, as the claim states it, fails where the 64-bit duration overflows: at attempt 34
  the shifted base delay is negative, and so is the delay for a hint of 9223372037
  seconds.
\<close>

theorem backoff_delay_counterexample:
  "backoff_delay 34 0 0 < DefaultBaseDelay * 2 ^ 34
   \<and> backoff_delay 0 9223372037 0 < 9223372037 * Second"
  by (simp add: backoff_delay_def wrap64_def DefaultBaseDelay_def Second_def)

text \<open>
  C4, amended. For every jitter draw \<open>j\<close> in \<open>[0, maxJitter)\<close>: without a hint and for an
  attempt index \<open>a\<close> of at most 33 the delay is \<open>baseDelay * 2 ^ a + j\<close>, hence in
  \<open>[baseDelay * 2 ^ a, baseDelay * 2 ^ a + maxJitter)\<close>; with a positive hint of \<open>h\<close> seconds,
  at most 9223372036, it is \<open>h\<close> seconds plus \<open>j\<close>, hence in
  \<open>[h seconds, h seconds + maxJitter)\<close>. The jitter is added in both cases.
\<close>

theorem backoff_delay_bounds:
  assumes "0 \<le> j" "j < maxJitter"
  shows "(retryAfter \<le> 0 \<and> attempt \<le> 33 \<longrightarrow>
           backoff_delay attempt retryAfter j = DefaultBaseDelay * 2 ^ attempt + j
           \<and> DefaultBaseDelay * 2 ^ attempt \<le> backoff_delay attempt retryAfter j
           \<and> backoff_delay attempt retryAfter j < DefaultBaseDelay * 2 ^ attempt + maxJitter)
       \<and> (0 < retryAfter \<and> retryAfter \<le> 9223372036 \<longrightarrow>
           backoff_delay attempt retryAfter j = retryAfter * Second + j
           \<and> retryAfter * Second \<le> backoff_delay attempt retryAfter j
           \<and> backoff_delay attempt retryAfter j < retryAfter * Second + maxJitter)"
proof (intro conjI impI)
  assume h: "retryAfter \<le> 0 \<and> attempt \<le> 33"
  define b where "b = DefaultBaseDelay * 2 ^ attempt"
  have r: "0 < b" "b \<le> 8589934592000000000"
    using h base_delay_range [of attempt] by (simp_all add: b_def)
  have d: "wrap64 b = b"
    using r by (intro wrap64_id) simp_all
  have s: "wrap64 (b + j) = b + j"
    using r assms by (intro wrap64_id) (simp_all add: maxJitter_def)
  have e: "backoff_delay attempt retryAfter j = b + j"
    using h by (simp add: backoff_delay_def b_def [symmetric] d s)
  show "backoff_delay attempt retryAfter j = DefaultBaseDelay * 2 ^ attempt + j"
    unfolding e b_def [symmetric] ..
  show "DefaultBaseDelay * 2 ^ attempt \<le> backoff_delay attempt retryAfter j"
    unfolding e b_def [symmetric] using assms by simp
  show "backoff_delay attempt retryAfter j < DefaultBaseDelay * 2 ^ attempt + maxJitter"
    unfolding e b_def [symmetric] using assms by simp
next
  assume h: "0 < retryAfter \<and> retryAfter \<le> 9223372036"
  have d: "wrap64 (retryAfter * Second) = retryAfter * Second"
    using h by (intro wrap64_id) (simp_all add: Second_def)
  have s: "wrap64 (retryAfter * Second + j) = retryAfter * Second + j"
    using h assms by (intro wrap64_id) (simp_all add: Second_def maxJitter_def)
  show e: "backoff_delay attempt retryAfter j = retryAfter * Second + j"
    using h by (simp add: backoff_delay_def d s)
  show "retryAfter * Second \<le> backoff_delay attempt retryAfter j"
    unfolding e using assms by simp
  show "backoff_delay attempt retryAfter j < retryAfter * Second + maxJitter"
    unfolding e using assms by simp
qed

theorem backoff_delay_bounds_witness:
  "backoff_delay 0 0 123 = 1000000123
   \<and> backoff_delay 3 0 0 = 8000000000
   \<and> (1000000000 \<le> backoff_delay 0 0 123 \<and> backoff_delay 0 0 123 < 1500000000)
   \<and> backoff_delay 1 2 499999999 = 2499999999
   \<and> (2000000000 \<le> backoff_delay 1 2 499999999 \<and> backoff_delay 1 2 499999999 < 2500000000)"
proof -
  have j: "(0::int) \<le> 123" "123 < maxJitter" "(0::int) \<le> 499999999" "499999999 < maxJitter"
    "(0::int) \<le> 0" "0 < maxJitter"
    by (simp_all add: maxJitter_def)
  show ?thesis
    using backoff_delay_bounds [OF j(1) j(2), of 0 0] backoff_delay_bounds [OF j(3) j(4), of 2 1]
      backoff_delay_bounds [OF j(5) j(6), of 0 3]
    by (simp add: DefaultBaseDelay_def Second_def maxJitter_def)
qed

subsection \<open>Request executor\<close>

lemma do_loop_retriable_step:
  assumes "NewRequest L = None" "ctxErr (rs a) = None" "failed_retriably (reply (rs a))"
  shows "do_loop L want rs (Suc k) a lastErr =
           after (send_and_wait L rs a) (do_loop L want rs k (Suc a) (Some (observed L (reply (rs a)))))"
proof (cases "reply (rs a)")
  case (TransportError err)
  then show ?thesis
    using assms by (simp add: failed_retriably_def observed_def hint_def send_and_wait_def)
next
  case (ReadError status err)
  then show ?thesis
    using assms by (simp add: failed_retriably_def)
next
  case (Response status ra respBody)
  then have "status < 200 \<or> 300 \<le> status" "shouldRetry status None"
    using assms(3) by (auto simp add: failed_retriably_def)
  then show ?thesis
    using assms(1,2) Response by (auto simp add: observed_def hint_def send_and_wait_def Let_def)
qed

lemma after_returning: "after as (returning e v bs) = returning e v (as @ bs)"
  by (simp add: after_def returning_def)

lemma do_loop_all_retriable:
  assumes "NewRequest L = None"
    and "\<And>i. i < k \<Longrightarrow> ctxErr (rs (a + i)) = None \<and> failed_retriably (reply (rs (a + i)))"
  shows "do_loop L want rs k a lastErr =
           returning (if k = 0 then lastErr else Some (observed L (reply (rs (a + k - 1))))) None
             (concat (map (send_and_wait L rs) [a..<a + k]))"
  using assms(2)
proof (induction k arbitrary: a lastErr)
  case 0
  then show ?case by simp
next
  case (Suc k)
  have here: "ctxErr (rs a) = None" "failed_retriably (reply (rs a))"
    using Suc.prems [of 0] by simp_all
  have later: "i < k \<Longrightarrow> ctxErr (rs (Suc a + i)) = None \<and> failed_retriably (reply (rs (Suc a + i)))" for i
    using Suc.prems [of "Suc i"] by simp
  have ih: "do_loop L want rs k (Suc a) (Some (observed L (reply (rs a)))) =
           returning (if k = 0 then Some (observed L (reply (rs a)))
                      else Some (observed L (reply (rs (Suc a + k - 1))))) None
             (concat (map (send_and_wait L rs) [Suc a..<Suc a + k]))"
    using Suc.IH [OF later] by blast
  have range: "[a..<a + Suc k] = a # [Suc a..<Suc a + k]"
    by (simp add: upt_conv_Cons)
  have last: "(if k = 0 then Some (observed L (reply (rs a)))
               else Some (observed L (reply (rs (Suc a + k - 1)))))
             = Some (observed L (reply (rs (a + Suc k - 1))))"
    by simp
  have "do_loop L want rs (Suc k) a lastErr =
          returning (Some (observed L (reply (rs (a + Suc k - 1))))) None
            (send_and_wait L rs a @ concat (map (send_and_wait L rs) [Suc a..<Suc a + k]))"
    unfolding do_loop_retriable_step [of L rs a want k lastErr, OF assms(1) here] ih last after_returning ..
  also have "send_and_wait L rs a @ concat (map (send_and_wait L rs) [Suc a..<Suc a + k])
             = concat (map (send_and_wait L rs) [a..<a + Suc k])"
    unfolding range by simp
  finally show ?case by simp
qed

text \<open>
  C1, as the claim states it, fails in its second half: with a single attempt allowed
  and a 503 response, \<open>do\<close> still waits in \<open>backoff\<close> after that final attempt.
\<close>

theorem do_final_attempt_counterexample:
  "actions (do (codec Inr Inr) 1 (None :: string option) False (always (Response 503 [] []) 0) :: string do_result)
     = [Send, Sleep 1000000000]"
  by code_simp

text \<open>
  C1, amended. When all \<open>maxRetries\<close> attempts are made (the context is not done at
  the head of any iteration, the body serialises, the request can be built) and each
  fails in a way the classifier deems retriable, \<open>do\<close> returns the error observed on
  the last attempt, never a generic one, and leaves the result untouched; every
  attempt, the last one included, is followed by a backoff wait.
\<close>

theorem do_exhausted_returns_last_error:
  assumes "0 < maxRetries"
    and "marshalBody L body = Inr bodyData"
    and "NewRequest L = None"
    and "\<forall>a < nat maxRetries. ctxErr (rs a) = None \<and> failed_retriably (reply (rs a))"
  shows "ret (do L maxRetries body want rs) = Some (observed L (reply (rs (nat maxRetries - 1))))
       \<and> decoded (do L maxRetries body want rs) = None
       \<and> actions (do L maxRetries body want rs) = concat (map (send_and_wait L rs) [0..<nat maxRetries])"
proof -
  have "do L maxRetries body want rs = do_loop L want rs (nat maxRetries) 0 None"
    using assms(2) by (simp add: do_def)
  also have "\<dots> = returning (Some (observed L (reply (rs (nat maxRetries - 1))))) None
             (concat (map (send_and_wait L rs) [0..<nat maxRetries]))"
    using do_loop_all_retriable [OF assms(3), of "nat maxRetries" rs 0 want None] assms(1,4)
    by simp
  finally show ?thesis by (simp add: returning_def)
qed

theorem do_exhausted_returns_last_error_witness:
  "ret (do (codec Inr Inr) 2 (None :: string option) False (always (Response 429 ''2'' []) 7) :: string do_result)
     = Some (APIErr \<lparr>StatusCode = 429, Code = [], Message = ''Too Many Requests'', RetryAfter = 2\<rparr>)
   \<and> actions (do (codec Inr Inr) 2 (None :: string option) False (always (Response 429 ''2'' []) 7) :: string do_result)
     = [Send, Sleep 2000000007, Send, Sleep 2000000007]"
proof -
  let ?L = "codec Inr Inr :: (string, string) lib"
  let ?rs = "always (Response 429 ''2'' []) 7"
  have h1: "(0::int) < 2" by simp
  have h2: "marshalBody ?L None = Inr None" by (simp add: marshalBody_def)
  have h3: "NewRequest ?L = None" by (simp add: codec_def)
  have h4: "\<forall>a < nat 2. ctxErr (?rs a) = None \<and> failed_retriably (reply (?rs a))"
    by (simp add: always_def failed_retriably_def shouldRetry_def)
  have e: "observed ?L (Response 429 ''2'' [])
             = APIErr \<lparr>StatusCode = 429, Code = [], Message = ''Too Many Requests'', RetryAfter = 2\<rparr>"
    by code_simp
  have a: "concat (map (send_and_wait ?L ?rs) [0..<nat 2]) = [Send, Sleep 2000000007, Send, Sleep 2000000007]"
    by code_simp
  show ?thesis
    using do_exhausted_returns_last_error [where rs = ?rs and L = ?L and want = False, OF h1 h2 h3 h4] e a
    by (simp add: always_def)
qed

lemma newAPIError_non_transient:
  assumes "status \<noteq> 429"
  shows "newAPIError L status ra respBody =
           \<lparr>StatusCode = status,
             Code = (if respBody \<noteq> [] then fst (UnmarshalAPIError L respBody) else []),
             Message = (if respBody \<noteq> [] \<and> snd (UnmarshalAPIError L respBody) \<noteq> []
                        then snd (UnmarshalAPIError L respBody) else StatusText L status),
             RetryAfter = 0\<rparr>"
  using assms by (simp add: newAPIError_def Let_def)

lemma do_loop_non_transient:
  assumes "NewRequest L = None"
    and "ctxErr (rs a) = None"
    and "reply (rs a) = Response status ra respBody"
    and "\<not> (200 \<le> status \<and> status < 300)"
    and "status \<noteq> 429 \<and> status \<noteq> 500 \<and> status \<noteq> 502 \<and> status \<noteq> 503 \<and> status \<noteq> 504"
  shows "do_loop L want rs (Suc k) a lastErr =
           returning (Some (APIErr (newAPIError L status ra respBody))) None [Send]"
proof -
  have "\<not> shouldRetry status None"
    using assms(5) by (simp add: shouldRetry_def)
  moreover have "status < 200 \<or> 300 \<le> status"
    using assms(4) by auto
  ultimately show ?thesis
    using assms(1-3) by (auto simp add: Let_def)
qed

lemma do_loop_read_error:
  assumes "NewRequest L = None"
    and "ctxErr (rs a) = None"
    and "reply (rs a) = ReadError status err"
  shows "do_loop L want rs (Suc k) a lastErr = returning (Some err) None [Send]"
  using assms by simp

lemma do_first_iteration:
  assumes "0 < maxRetries" "marshalBody L body = Inr bodyData"
  shows "do L maxRetries body want rs = do_loop L want rs (Suc (nat maxRetries - 1)) 0 None"
  using assms by (simp add: do_def)

text \<open>
  C8, as the claim states it, fails for a response whose body cannot be read: for a 404
  whose body read ends in an error, \<open>do\<close> returns that read error, not an \<open>APIError\<close>.
\<close>

theorem do_non_transient_counterexample:
  "do (codec Inr Inr) 3 (None :: string option) False
      (always (ReadError 404 (Errorf ''unexpected EOF'')) 0)
     = (returning (Some (Errorf ''unexpected EOF'')) None [Send] :: string do_result)"
  by code_simp

text \<open>
  C8, amended. A response with a status code outside the 2xx range that is none of 429,
  500, 502, 503, 504 ends the loop in the iteration that receives it, with that one
  request and no backoff wait. When its body is read in full, \<open>do\<close> returns the
  \<open>APIError\<close> built from it: the status code of the response, the code and the message
  of its body, the reason phrase of the status code for a body without a message, and
  no retry hint. When the read of its body fails, \<open>do\<close> returns the read error. When the
  response answers the first attempt, the whole call of \<open>do\<close> is that one request.
\<close>

theorem do_non_transient_single_attempt:
  assumes "NewRequest L = None"
    and "ctxErr (rs a) = None"
    and "\<not> (200 \<le> status \<and> status < 300)"
    and "status \<noteq> 429 \<and> status \<noteq> 500 \<and> status \<noteq> 502 \<and> status \<noteq> 503 \<and> status \<noteq> 504"
  shows "(reply (rs a) = Response status ra respBody \<longrightarrow>
            do_loop L want rs (Suc k) a lastErr =
              returning (Some (APIErr
                   \<lparr>StatusCode = status,
                     Code = (if respBody \<noteq> [] then fst (UnmarshalAPIError L respBody) else []),
                     Message = (if respBody \<noteq> [] \<and> snd (UnmarshalAPIError L respBody) \<noteq> []
                                then snd (UnmarshalAPIError L respBody) else StatusText L status),
                     RetryAfter = 0\<rparr>)) None [Send])
       \<and> (reply (rs a) = ReadError status err \<longrightarrow>
            do_loop L want rs (Suc k) a lastErr = returning (Some err) None [Send])
       \<and> (a = 0 \<and> 0 < maxRetries \<and> marshalBody L body = Inr bodyData \<longrightarrow>
            (reply (rs a) = Response status ra respBody \<longrightarrow>
               do L maxRetries body want rs =
                 returning (Some (APIErr
                   \<lparr>StatusCode = status,
                     Code = (if respBody \<noteq> [] then fst (UnmarshalAPIError L respBody) else []),
                     Message = (if respBody \<noteq> [] \<and> snd (UnmarshalAPIError L respBody) \<noteq> []
                                then snd (UnmarshalAPIError L respBody) else StatusText L status),
                     RetryAfter = 0\<rparr>)) None [Send])
          \<and> (reply (rs a) = ReadError status err \<longrightarrow>
               do L maxRetries body want rs = returning (Some err) None [Send]))"
proof -
  have n: "status \<noteq> 429"
    using assms(4) by simp
  have full: "do_loop L want rs (Suc k) a lastErr =
                returning (Some (APIErr
                   \<lparr>StatusCode = status,
                     Code = (if respBody \<noteq> [] then fst (UnmarshalAPIError L respBody) else []),
                     Message = (if respBody \<noteq> [] \<and> snd (UnmarshalAPIError L respBody) \<noteq> []
                                then snd (UnmarshalAPIError L respBody) else StatusText L status),
                     RetryAfter = 0\<rparr>)) None [Send]"
    if "reply (rs a) = Response status ra respBody" for k lastErr
    using do_loop_non_transient [where rs = rs and a = a and L = L and want = want and k = k
        and lastErr = lastErr, OF assms(1,2) that assms(3,4)]
    by (simp add: newAPIError_non_transient [OF n])
  have broken: "do_loop L want rs (Suc k) a lastErr = returning (Some err) None [Send]"
    if "reply (rs a) = ReadError status err" for k lastErr
    using do_loop_read_error [where rs = rs and a = a and L = L, OF assms(1,2) that] .
  have first: "do L maxRetries body want rs = do_loop L want rs (Suc (nat maxRetries - 1)) a None"
    if "a = 0 \<and> 0 < maxRetries \<and> marshalBody L body = Inr bodyData"
    using that do_first_iteration [of maxRetries L body bodyData want rs] by simp
  show ?thesis
  proof (intro conjI impI)
    assume "reply (rs a) = Response status ra respBody"
    then show "do_loop L want rs (Suc k) a lastErr =
                returning (Some (APIErr
                   \<lparr>StatusCode = status,
                     Code = (if respBody \<noteq> [] then fst (UnmarshalAPIError L respBody) else []),
                     Message = (if respBody \<noteq> [] \<and> snd (UnmarshalAPIError L respBody) \<noteq> []
                                then snd (UnmarshalAPIError L respBody) else StatusText L status),
                     RetryAfter = 0\<rparr>)) None [Send]"
      by (rule full)
  next
    assume "reply (rs a) = ReadError status err"
    then show "do_loop L want rs (Suc k) a lastErr = returning (Some err) None [Send]"
      by (rule broken)
  next
    assume h: "a = 0 \<and> 0 < maxRetries \<and> marshalBody L body = Inr bodyData"
      and r: "reply (rs a) = Response status ra respBody"
    show "do L maxRetries body want rs =
                returning (Some (APIErr
                   \<lparr>StatusCode = status,
                     Code = (if respBody \<noteq> [] then fst (UnmarshalAPIError L respBody) else []),
                     Message = (if respBody \<noteq> [] \<and> snd (UnmarshalAPIError L respBody) \<noteq> []
                                then snd (UnmarshalAPIError L respBody) else StatusText L status),
                     RetryAfter = 0\<rparr>)) None [Send]"
      unfolding first [OF h] by (rule full [OF r])
  next
    assume h: "a = 0 \<and> 0 < maxRetries \<and> marshalBody L body = Inr bodyData"
      and r: "reply (rs a) = ReadError status err"
    show "do L maxRetries body want rs = returning (Some err) None [Send]"
      unfolding first [OF h] by (rule broken [OF r])
  qed
qed

theorem do_non_transient_single_attempt_witness:
  "do ((codec Inr Inr)\<lparr>UnmarshalAPIError := carrying ''quota'' ''plan limit reached''\<rparr>) 3
      (Some ''{}'') True (always (Response 403 [] ''{}'') 0)
     = (returning (Some (APIErr \<lparr>StatusCode = 403, Code = ''quota'',
                                  Message = ''plan limit reached'', RetryAfter = 0\<rparr>))
          None [Send] :: string do_result)
   \<and> do (codec Inr Inr) 3 (Some ''{}'') True (always (Response 403 [] []) 0)
     = (returning (Some (APIErr \<lparr>StatusCode = 403, Code = [], Message = ''Forbidden'',
                                  RetryAfter = 0\<rparr>))
          None [Send] :: string do_result)
   \<and> do (codec Inr Inr) 3 (Some ''{}'') True (always (ReadError 403 (Errorf ''unexpected EOF'')) 0)
     = (returning (Some (Errorf ''unexpected EOF'')) None [Send] :: string do_result)"
proof -
  let ?L = "codec Inr Inr :: (string, string) lib"
  let ?M = "?L\<lparr>UnmarshalAPIError := carrying ''quota'' ''plan limit reached''\<rparr>"
  let ?full = "always (Response 403 [] ''{}'') 0"
  let ?bare = "always (Response 403 [] []) 0"
  let ?broken = "always (ReadError 403 (Errorf ''unexpected EOF'')) 0"
  have l: "NewRequest ?L = None" "NewRequest ?M = None"
    by (simp_all add: codec_def)
  have c: "ctxErr (?full 0) = None" "ctxErr (?bare 0) = None" "ctxErr (?broken 0) = None"
    by (simp_all add: always_def)
  have h3: "\<not> (200 \<le> (403::int) \<and> (403::int) < 300)" by simp
  have h4: "(403::int) \<noteq> 429 \<and> (403::int) \<noteq> 500 \<and> (403::int) \<noteq> 502 \<and> (403::int) \<noteq> 503
            \<and> (403::int) \<noteq> 504" by simp
  have m: "marshalBody ?L (Some ''{}'') = Inr (Some ''{}'')"
    "marshalBody ?M (Some ''{}'') = Inr (Some ''{}'')"
    by (simp_all add: marshalBody_def codec_def)
  have r: "reply (?full 0) = Response 403 [] ''{}''" "reply (?bare 0) = Response 403 [] []"
    "reply (?broken 0) = ReadError 403 (Errorf ''unexpected EOF'')"
    by (simp_all add: always_def)
  have t: "StatusText ?L 403 = ''Forbidden''"
    by (simp add: codec_def statusText_def)
  have u: "UnmarshalAPIError ?M ''{}'' = (''quota'', ''plan limit reached'')"
    by (simp add: carrying_def)
  show ?thesis
    using do_non_transient_single_attempt [where rs = ?full and L = ?M and want = True and a = 0
        and maxRetries = 3 and body = "Some ''{}''" and bodyData = "Some ''{}''"
        and ra = "[]" and respBody = "''{}''", OF l(2) c(1) h3 h4]
      do_non_transient_single_attempt [where rs = ?bare and L = ?L and want = True and a = 0
        and maxRetries = 3 and body = "Some ''{}''" and bodyData = "Some ''{}''"
        and ra = "[]" and respBody = "[]", OF l(1) c(2) h3 h4]
      do_non_transient_single_attempt [where rs = ?broken and L = ?L and want = True and a = 0
        and maxRetries = 3 and body = "Some ''{}''" and bodyData = "Some ''{}''"
        and err = "Errorf ''unexpected EOF''", OF l(1) c(3) h3 h4]
      m r t u
    by simp
qed

text \<open>
  C10, as the claim states it, fails for a body that \<open>json.Marshal\<close> rejects: \<open>do\<close>
  returns the serialisation error, not \<open>nil\<close>.
\<close>

theorem do_zero_retries_counterexample:
  "ret (do (codec rejecting Inr) 0 (Some ''lead'') True
          (always (Response 200 [] ''{}'') 0) :: string do_result)
     = Some (Errorf ''json: unsupported value: NaN'')"
  by (simp add: do_def marshalBody_def codec_def rejecting_def returning_def)

text \<open>
  C10, amended. With \<open>maxRetries \<le> 0\<close>, \<open>do\<close> sends no request and waits in no backoff,
  and leaves the result at its zero value; it returns \<open>nil\<close> when there is no body or the
  body serialises, and the serialisation error otherwise.
\<close>

theorem do_zero_retries:
  assumes "maxRetries \<le> 0"
  shows "actions (do L maxRetries body want rs) = []
       \<and> decoded (do L maxRetries body want rs) = None
       \<and> ret (do L maxRetries body want rs) =
           (case marshalBody L body of Inl err \<Rightarrow> Some err | Inr bodyData \<Rightarrow> None)"
  using assms by (simp add: do_def returning_def split: sum.split)

theorem do_zero_retries_witness:
  "actions (do (codec Inr Inr) 0 (Some ''{}'') True (always (Response 200 [] ''{}'') 0) :: string do_result) = []
   \<and> decoded (do (codec Inr Inr) 0 (Some ''{}'') True (always (Response 200 [] ''{}'') 0) :: string do_result) = None
   \<and> ret (do (codec Inr Inr) 0 (Some ''{}'') True (always (Response 200 [] ''{}'') 0) :: string do_result) = None"
proof -
  have h: "(0::int) \<le> 0" by simp
  show ?thesis
    using do_zero_retries [OF h, of "codec Inr Inr" "Some ''{}''" True "always (Response 200 [] ''{}'') 0"]
    by (simp add: marshalBody_def codec_def)
qed

subsection \<open>Paged fetcher\<close>

lemma yield_all_accepting:
  "yield_all takes_all seen xs = (map Inr xs, True)"
  by (induction xs arbitrary: seen) (simp_all add: takes_all_def)

lemma iterate_loop_page:
  "iterate_loop takes_all opts (Inr r # ps) cur seen =
     (if HasMore r
      then map_option (\<lambda>rest. Page (listOpts opts cur) # map (\<lambda>x. Yield (Inr x)) (Leads r) @ rest)
             (iterate_loop takes_all opts ps (NextCursor r) (seen @ map Inr (Leads r)))
      else Some (Page (listOpts opts cur) # map (\<lambda>x. Yield (Inr x)) (Leads r)))"
  by (simp add: yield_all_accepting comp_def)

lemma iterate_loop_in_full:
  assumes "\<forall>r \<in> set rs. HasMore r"
  shows "iterate_loop takes_all opts (map Inr rs @ ps) cur seen =
           map_option (\<lambda>rest. in_full opts cur rs @ rest)
             (iterate_loop takes_all opts ps (cursor_after cur rs)
                (seen @ map Inr (concat (map Leads rs))))"
  using assms
proof (induction rs arbitrary: cur seen)
  case Nil
  then show ?case by (simp add: option.map_ident)
next
  case (Cons r rs)
  then have more: "HasMore r" and rest: "\<forall>r \<in> set rs. HasMore r"
    by simp_all
  show ?case
    using more Cons.IH [OF rest, of "NextCursor r" "seen @ map Inr (Leads r)"]
    by (simp add: iterate_loop_page option.map_comp comp_def del: iterate_loop.simps)
qed

lemma items_in_full: "items (in_full opts cur rs) = map Inr (concat (map Leads rs))"
proof (induction rs arbitrary: cur)
  case Nil
  show ?case by simp
next
  case (Cons r rs)
  have "items (map (\<lambda>x. Yield (Inr x)) xs @ es) = map Inr xs @ items es" for xs :: "'a list" and es
    by (induction xs) simp_all
  then show ?case using Cons by simp
qed

lemma in_full_append:
  "in_full opts cur (rs @ [r]) = in_full opts cur rs @ in_full opts (cursor_after cur rs) [r]"
  by (induction rs arbitrary: cur) simp_all

lemma items_then_error: "items (es @ [Page p, Yield x]) = items es @ [x]"
  by (induction es rule: items.induct) simp_all

lemma listConfig_of_cursor: "cursor (listConfig_of (opts @ [Cursor X])) = X"
  by (simp add: listConfig_of_def)

text \<open>
  C5. For a consumer that takes every item: when the first page carries \<open>[A, B]\<close> with
  more to come and cursor \<open>X\<close> and the second carries \<open>[C]\<close> with no more, the run is
  exactly request, \<open>A\<close>, \<open>B\<close>, request with cursor \<open>X\<close>, \<open>C\<close>: two page requests, whatever
  further pages the server could give. In general every page is handed over in full
  and in its order before the next page is requested, and an error of a page request
  ends the run as its last item, after all the records handed over before it.
\<close>

theorem iterate_pages_in_order:
  assumes "\<forall>r \<in> set rs. HasMore r"
  shows "iterate takes_all opts
           (Inr \<lparr>Leads = [A, B], Count = n1, HasMore = True, NextCursor = X\<rparr>
            # Inr \<lparr>Leads = [C], Count = n2, HasMore = False, NextCursor = Y\<rparr> # further)
         = Some [Page opts, Yield (Inr A), Yield (Inr B), Page (listOpts opts X), Yield (Inr C)]
       \<and> requests [Page opts, Yield (Inr A), Yield (Inr B), Page (listOpts opts X), Yield (Inr C)]
         = [opts, listOpts opts X]
       \<and> (X \<noteq> [] \<longrightarrow> cursor (listConfig_of (listOpts opts X)) = X)
       \<and> (\<not> HasMore r \<longrightarrow>
            iterate_loop takes_all opts (map Inr rs @ Inr r # further) cur seen
            = Some (in_full opts cur (rs @ [r])))
       \<and> iterate_loop takes_all opts (map Inr rs @ Inl e # further) cur seen
         = Some (in_full opts cur rs @ [Page (listOpts opts (cursor_after cur rs)), Yield (Inl e)])
       \<and> items (in_full opts cur rs @ [Page (listOpts opts (cursor_after cur rs)), Yield (Inl e)])
         = map Inr (concat (map Leads rs)) @ [Inl e]"
proof (intro conjI)
  show "iterate takes_all opts
           (Inr \<lparr>Leads = [A, B], Count = n1, HasMore = True, NextCursor = X\<rparr>
            # Inr \<lparr>Leads = [C], Count = n2, HasMore = False, NextCursor = Y\<rparr> # further)
         = Some [Page opts, Yield (Inr A), Yield (Inr B), Page (listOpts opts X), Yield (Inr C)]"
    by (simp add: iterate_def iterate_loop_page listOpts_def del: iterate_loop.simps)
  show "requests [Page opts, Yield (Inr A), Yield (Inr B), Page (listOpts opts X), Yield (Inr C)]
         = [opts, listOpts opts X]"
    by simp
  show "X \<noteq> [] \<longrightarrow> cursor (listConfig_of (listOpts opts X)) = X"
    by (simp add: listOpts_def listConfig_of_cursor)
  show "\<not> HasMore r \<longrightarrow>
         iterate_loop takes_all opts (map Inr rs @ Inr r # further) cur seen
         = Some (in_full opts cur (rs @ [r]))"
    by (simp add: iterate_loop_in_full [OF assms] iterate_loop_page in_full_append
          del: iterate_loop.simps)
  show "iterate_loop takes_all opts (map Inr rs @ Inl e # further) cur seen
         = Some (in_full opts cur rs @ [Page (listOpts opts (cursor_after cur rs)), Yield (Inl e)])"
    by (simp add: iterate_loop_in_full [OF assms])
  show "items (in_full opts cur rs @ [Page (listOpts opts (cursor_after cur rs)), Yield (Inl e)])
         = map Inr (concat (map Leads rs)) @ [Inl e]"
    by (simp add: items_then_error items_in_full)
qed

theorem iterate_pages_in_order_witness:
  "iterate_loop takes_all [Limit 2]
     [Inr \<lparr>Leads = [1::nat, 2], Count = 2, HasMore = True, NextCursor = ''X''\<rparr>,
      Inr \<lparr>Leads = [3], Count = 1, HasMore = False, NextCursor = []\<rparr>] [] []
     = Some [Page [Limit 2], Yield (Inr 1), Yield (Inr 2), Page [Limit 2, Cursor ''X''], Yield (Inr 3)]
   \<and> cursor (listConfig_of [Limit 2, Cursor ''X'']) = ''X''
   \<and> iterate_loop takes_all [Limit 2]
     [Inr \<lparr>Leads = [1::nat, 2], Count = 2, HasMore = True, NextCursor = ''X''\<rparr>, Inl Canceled] [] []
     = Some [Page [Limit 2], Yield (Inr 1), Yield (Inr 2), Page [Limit 2, Cursor ''X''],
             Yield (Inl Canceled)]"
proof -
  let ?p = "\<lparr>Leads = [1::nat, 2], Count = 2, HasMore = True, NextCursor = ''X''\<rparr>"
  let ?q = "\<lparr>Leads = [3::nat], Count = 1, HasMore = False, NextCursor = []\<rparr>"
  have h: "\<forall>r \<in> set [?p]. HasMore r" by simp
  show ?thesis
    using iterate_pages_in_order [where rs = "[?p]" and r = ?q and e = Canceled and opts = "[Limit 2]"
        and cur = "[]" and seen = "[]" and further = "[]" and X = "''X''", OF h]
    by (simp add: listOpts_def)
qed

subsection \<open>Streaming batcher\<close>

lemma sent_None [simp]: "sent None xs = xs" "lost None xs = False" "left None xs = None"
  by (simp_all add: sent_def lost_def left_def)

lemma flush_empty: "batch s = [] \<Longrightarrow> flush L n env s = s"
  by (simp add: flush_def)

lemma flush_failed:
  assumes "batch s \<noteq> []" "BulkCreate L n (rounds env) (batch s) = Return (Inl err)"
  shows "flush L n env s =
           s\<lparr>errs := errs s @ sent (sends env) [err], calls := calls s @ [batch s], batch := []\<rparr>"
  using assms by (simp add: flush_def)

lemma flush_succeeded:
  assumes "batch s \<noteq> []" "BulkCreate L n (rounds env) (batch s) = Return (Inr result)"
    "sends env = None"
  shows "flush L n env s =
           s\<lparr>results := results s @ Created result,
              errs := errs s @ map indexError (Errors result),
              calls := calls s @ [batch s], batch := []\<rparr>"
  using assms by (simp add: flush_def Let_def)

lemma flush_panicked:
  assumes "batch s \<noteq> []" "BulkCreate L n (rounds env) (batch s) = Panic"
  shows "flush L n env s = s\<lparr>calls := calls s @ [batch s], phase := Panicked\<rparr>"
  using assms by (simp add: flush_def)

lemma flush_uncancelled:
  assumes "batch s \<noteq> []" "sends env = None"
  shows "calls (flush L n env s) = calls s @ [batch s]
       \<and> armed (flush L n env s) = armed s
       \<and> (phase (flush L n env s) = phase s \<and> batch (flush L n env s) = []
          \<or> phase (flush L n env s) = Panicked \<and> batch (flush L n env s) = batch s)"
proof (cases "BulkCreate L n (rounds env) (batch s)")
  case Panic
  then show ?thesis using assms by (simp add: flush_panicked)
next
  case (Return r)
  then show ?thesis
    using assms by (cases r) (simp_all add: flush_failed flush_succeeded)
qed

lemma step_within_capacity:
  assumes "within_capacity s" "uncancelled ev"
  shows "within_capacity (step L n s ev)"
proof (cases "phase s = Running")
  case False
  then show ?thesis using assms by (cases ev) simp_all
next
  case True
  then have small: "length (batch s) < maxBatchSize"
    using assms(1) by (simp add: within_capacity_def)
  show ?thesis
  proof (cases ev)
    case CtxDone
    then show ?thesis using assms(1) True by (simp add: within_capacity_def)
  next
    case (TimerFired env)
    show ?thesis
    proof (cases "armed s \<and> batch s \<noteq> []")
      case False
      then show ?thesis using TimerFired True assms(1) by (auto simp add: flush_empty within_capacity_def)
    next
      case yes: True
      then show ?thesis
        using TimerFired True small assms(2)
          flush_uncancelled [of "s\<lparr>armed := False\<rparr>" env L n]
        by (auto simp add: within_capacity_def)
    qed
  next
    case (Closed env)
    show ?thesis
    proof (cases "batch s = []")
      case True
      then show ?thesis using Closed \<open>phase s = Running\<close> by (simp add: flush_empty within_capacity_def)
    next
      case False
      then show ?thesis
        using Closed True small assms(2)
          flush_uncancelled [of "s\<lparr>armed := False\<rparr>" env L n]
        by (auto simp add: within_capacity_def Let_def)
    qed
  next
    case (Received lead env)
    show ?thesis
    proof (cases "Suc (length (batch s)) \<ge> maxBatchSize")
      case False
      then show ?thesis using Received True by (simp add: within_capacity_def Let_def)
    next
      case full: True
      then show ?thesis
        using Received True small assms(2)
          flush_uncancelled [of "s\<lparr>batch := batch s @ [lead], armed := False\<rparr>" env L n]
        by (auto simp add: within_capacity_def Let_def)
    qed
  qed
qed

lemma BulkCreateFromChan_snoc:
  "BulkCreateFromChan L n (evs @ [ev]) = step L n (BulkCreateFromChan L n evs) ev"
  by (simp add: BulkCreateFromChan_def)

lemma BulkCreateFromChan_within_capacity:
  assumes "\<forall>ev \<in> set evs. uncancelled ev"
  shows "within_capacity (BulkCreateFromChan L n evs)"
  using assms
proof (induction evs rule: rev_induct)
  case Nil
  show ?case by (simp add: BulkCreateFromChan_def within_capacity_def start_def maxBatchSize_def)
next
  case (snoc ev evs)
  then show ?case by (simp add: BulkCreateFromChan_snoc step_within_capacity)
qed

lemma step_calls:
  assumes "phase s = Running" "uncancelled ev"
  shows "calls (step L n s ev) = (if triggers s ev then calls s @ [pending s ev] else calls s)
       \<and> (triggers s ev \<longrightarrow> batch (step L n s ev) = [] \<or> phase (step L n s ev) = Panicked)"
proof (cases ev)
  case CtxDone
  then show ?thesis using assms by simp
next
  case (TimerFired env)
  show ?thesis
  proof (cases "armed s \<and> batch s \<noteq> []")
    case False
    then show ?thesis using TimerFired assms by (auto simp add: flush_empty)
  next
    case True
    then show ?thesis
      using TimerFired assms flush_uncancelled [of "s\<lparr>armed := False\<rparr>" env L n]
      by auto
  qed
next
  case (Closed env)
  show ?thesis
  proof (cases "batch s = []")
    case True
    then show ?thesis using Closed assms by (simp add: flush_empty)
  next
    case False
    then show ?thesis
      using Closed assms flush_uncancelled [of "s\<lparr>armed := False\<rparr>" env L n]
      by (auto simp add: Let_def)
  qed
next
  case (Received lead env)
  show ?thesis
  proof (cases "Suc (length (batch s)) \<ge> maxBatchSize")
    case False
    then show ?thesis using Received assms by (simp add: Let_def)
  next
    case True
    then show ?thesis
      using Received assms
        flush_uncancelled [of "s\<lparr>batch := batch s @ [lead], armed := False\<rparr>" env L n]
      by (auto simp add: Let_def)
  qed
qed

text \<open>
  C7, as the claim states it, fails when cancellation wins the \<open>select\<close> that sends the
  submission error: \<open>BulkCreate\<close> fails with a 400 and nothing is sent on the errors
  outlet.
\<close>

theorem flush_whole_call_failure_counterexample:
  "BulkCreate (codec accepting (decoding zeroBulkCreateResult)) 3
      (always (Response 400 [] []) 0) [Some \<lparr>ID = [], Name = ''Acme'', Source = ''web''\<rparr>]
     = Return (Inl (APIErr \<lparr>StatusCode = 400, Code = [], Message = ''Bad Request'', RetryAfter = 0\<rparr>))
   \<and> errs (flush (codec accepting (decoding zeroBulkCreateResult)) 3
           \<lparr>rounds = always (Response 400 [] []) 0, sends = Some 0\<rparr>
           (start\<lparr>batch := [Some \<lparr>ID = [], Name = ''Acme'', Source = ''web''\<rparr>]\<rparr>)) = []"
  by code_simp

text \<open>
  C7, amended. When \<open>BulkCreate\<close> fails for the whole batch, \<open>flush\<close> sends that one error
  on the errors outlet, or nothing when cancellation wins that send; it sends nothing
  on the results outlet; and the batch, handed to \<open>BulkCreate\<close> that once, is cleared.
\<close>

theorem flush_whole_call_failure:
  assumes "batch s \<noteq> []"
    and "BulkCreate L n (rounds env) (batch s) = Return (Inl err)"
  shows "errs (flush L n env s) = errs s @ (if sends env = Some 0 then [] else [err])
       \<and> results (flush L n env s) = results s
       \<and> batch (flush L n env s) = []
       \<and> calls (flush L n env s) = calls s @ [batch s]"
proof -
  have "sent (sends env) [err] = (if sends env = Some 0 then [] else [err])"
    by (cases "sends env") (simp_all add: sent_def)
  then show ?thesis
    using assms by (simp add: flush_failed)
qed

theorem flush_whole_call_failure_witness:
  "errs (flush (codec accepting (decoding zeroBulkCreateResult)) 3
           \<lparr>rounds = always (Response 400 [] []) 0, sends = None\<rparr>
           (start\<lparr>batch := [Some \<lparr>ID = [], Name = ''Acme'', Source = ''web''\<rparr>]\<rparr>))
     = [APIErr \<lparr>StatusCode = 400, Code = [], Message = ''Bad Request'', RetryAfter = 0\<rparr>]
   \<and> results (flush (codec accepting (decoding zeroBulkCreateResult)) 3
           \<lparr>rounds = always (Response 400 [] []) 0, sends = None\<rparr>
           (start\<lparr>batch := [Some \<lparr>ID = [], Name = ''Acme'', Source = ''web''\<rparr>]\<rparr>)) = []
   \<and> batch (flush (codec accepting (decoding zeroBulkCreateResult)) 3
           \<lparr>rounds = always (Response 400 [] []) 0, sends = None\<rparr>
           (start\<lparr>batch := [Some \<lparr>ID = [], Name = ''Acme'', Source = ''web''\<rparr>]\<rparr>)) = []"
proof -
  let ?L = "codec accepting (decoding zeroBulkCreateResult)
              :: (Lead option list, BulkCreateResult) lib"
  let ?env = "\<lparr>rounds = always (Response 400 [] []) 0, sends = None\<rparr>"
  let ?s = "start\<lparr>batch := [Some \<lparr>ID = [], Name = ''Acme'', Source = ''web''\<rparr>]\<rparr>"
  have h1: "batch ?s \<noteq> []" by simp
  have h2: "BulkCreate ?L 3 (rounds ?env) (batch ?s)
              = Return (Inl (APIErr \<lparr>StatusCode = 400, Code = [], Message = ''Bad Request'', RetryAfter = 0\<rparr>))"
    by code_simp
  show ?thesis
    using flush_whole_call_failure [where s = ?s and L = ?L and env = ?env, OF h1 h2]
    by (simp add: start_def)
qed

text \<open>
  C2, as the claim states it, fails: for a batch of three leads and a 2xx response with
  an empty body \<open>BulkCreate\<close> reports no created record and no failure, and \<open>flush\<close>
  sends nothing on either outlet; the mismatch is not surfaced.
\<close>

theorem flush_emits_unchecked_counterexample:
  "length [Some \<lparr>ID = [], Name = ''A'', Source = ''web''\<rparr>, Some \<lparr>ID = [], Name = ''B'', Source = ''web''\<rparr>,
           Some \<lparr>ID = [], Name = ''C'', Source = ''web''\<rparr>] = 3
   \<and> BulkCreate (codec accepting (decoding zeroBulkCreateResult)) 3
        (always (Response 200 [] []) 0)
        [Some \<lparr>ID = [], Name = ''A'', Source = ''web''\<rparr>, Some \<lparr>ID = [], Name = ''B'', Source = ''web''\<rparr>,
         Some \<lparr>ID = [], Name = ''C'', Source = ''web''\<rparr>]
      = Return (Inr \<lparr>Total = 0, Success = 0, Failed = 0, Created = [], Errors = []\<rparr>)
   \<and> errs (flush (codec accepting (decoding zeroBulkCreateResult)) 3
           \<lparr>rounds = always (Response 200 [] []) 0, sends = None\<rparr>
           (start\<lparr>batch := [Some \<lparr>ID = [], Name = ''A'', Source = ''web''\<rparr>,
                              Some \<lparr>ID = [], Name = ''B'', Source = ''web''\<rparr>,
                              Some \<lparr>ID = [], Name = ''C'', Source = ''web''\<rparr>]\<rparr>)) = []
   \<and> results (flush (codec accepting (decoding zeroBulkCreateResult)) 3
           \<lparr>rounds = always (Response 200 [] []) 0, sends = None\<rparr>
           (start\<lparr>batch := [Some \<lparr>ID = [], Name = ''A'', Source = ''web''\<rparr>,
                              Some \<lparr>ID = [], Name = ''B'', Source = ''web''\<rparr>,
                              Some \<lparr>ID = [], Name = ''C'', Source = ''web''\<rparr>]\<rparr>)) = []"
  by code_simp

text \<open>
  C2, amended. After a successful \<open>BulkCreate\<close>, \<open>flush\<close> compares no count with the
  batch size: with no send pre-empted by cancellation it sends every created entry on
  the results outlet and one composed error for every reported failure on the errors
  outlet, whatever their number, and clears the batch.
\<close>

theorem flush_emits_unchecked:
  assumes "batch s \<noteq> []"
    and "BulkCreate L n (rounds env) (batch s) = Return (Inr result)"
    and "sends env = None"
  shows "results (flush L n env s) = results s @ Created result
       \<and> errs (flush L n env s) = errs s @ map indexError (Errors result)
       \<and> batch (flush L n env s) = []"
  using assms by (simp add: flush_succeeded)

theorem flush_emits_unchecked_witness:
  "results (flush (codec accepting
             (decoding \<lparr>Total = 3, Success = 1, Failed = 1,
                                Created = [\<lparr>Index = 0, LeadID = ''a1'', CreatedAt = 0\<rparr>],
                                Errors = [\<lparr>ErrIndex = 2, ErrMessage = ''duplicate''\<rparr>]\<rparr>)) 3
           \<lparr>rounds = always (Response 200 [] ''{}'') 0, sends = None\<rparr>
           (start\<lparr>batch := [Some \<lparr>ID = [], Name = ''A'', Source = ''web''\<rparr>,
                              Some \<lparr>ID = [], Name = ''B'', Source = ''web''\<rparr>,
                              Some \<lparr>ID = [], Name = ''C'', Source = ''web''\<rparr>]\<rparr>))
     = [\<lparr>Index = 0, LeadID = ''a1'', CreatedAt = 0\<rparr>]
   \<and> errs (flush (codec accepting
             (decoding \<lparr>Total = 3, Success = 1, Failed = 1,
                                Created = [\<lparr>Index = 0, LeadID = ''a1'', CreatedAt = 0\<rparr>],
                                Errors = [\<lparr>ErrIndex = 2, ErrMessage = ''duplicate''\<rparr>]\<rparr>)) 3
           \<lparr>rounds = always (Response 200 [] ''{}'') 0, sends = None\<rparr>
           (start\<lparr>batch := [Some \<lparr>ID = [], Name = ''A'', Source = ''web''\<rparr>,
                              Some \<lparr>ID = [], Name = ''B'', Source = ''web''\<rparr>,
                              Some \<lparr>ID = [], Name = ''C'', Source = ''web''\<rparr>]\<rparr>))
     = [Errorf ''index 2: duplicate'']"
proof -
  let ?r = "\<lparr>Total = 3, Success = 1, Failed = 1,
             Created = [\<lparr>Index = 0, LeadID = ''a1'', CreatedAt = 0\<rparr>],
             Errors = [\<lparr>ErrIndex = 2, ErrMessage = ''duplicate''\<rparr>]\<rparr>"
  let ?L = "codec accepting (decoding ?r)
              :: (Lead option list, BulkCreateResult) lib"
  let ?env = "\<lparr>rounds = always (Response 200 [] ''{}'') 0, sends = None\<rparr>"
  let ?s = "start\<lparr>batch := [Some \<lparr>ID = [], Name = ''A'', Source = ''web''\<rparr>,
                              Some \<lparr>ID = [], Name = ''B'', Source = ''web''\<rparr>,
                              Some \<lparr>ID = [], Name = ''C'', Source = ''web''\<rparr>]\<rparr>"
  have h1: "batch ?s \<noteq> []" by simp
  have h2: "BulkCreate ?L 3 (rounds ?env) (batch ?s) = Return (Inr ?r)"
    by code_simp
  have h3: "sends ?env = None" by simp
  have e: "map indexError (Errors ?r) = [Errorf ''index 2: duplicate'']"
    by code_simp
  show ?thesis
    using flush_emits_unchecked [where s = ?s and L = ?L and env = ?env, OF h1 h2 h3] e
    by (simp add: start_def)
qed

text \<open>
  C6, as the claim states it, fails. A batch of one lead is flushed when the input
  channel is closed, with no timer firing and no full batch. And when cancellation
  pre-empts a send of a flush of a full batch, the batch is not cleared: it still holds
  100 leads at the head of the loop, and a further lead received makes it 101, the
  size of the second batch handed to \<open>BulkCreate\<close>.
\<close>

theorem batcher_capacity_counterexample:
  "calls (BulkCreateFromChan (codec accepting (decoding zeroBulkCreateResult)) 3
      [Received (Some \<lparr>ID = [], Name = ''A'', Source = ''web''\<rparr>)
         \<lparr>rounds = always (Response 200 [] ''{}'') 0, sends = None\<rparr>,
       Closed \<lparr>rounds = always (Response 200 [] ''{}'') 0, sends = None\<rparr>])
     = [[Some \<lparr>ID = [], Name = ''A'', Source = ''web''\<rparr>]]
   \<and> length (batch (BulkCreateFromChan
        (codec accepting
           (decoding \<lparr>Total = 100, Success = 100, Failed = 0,
                              Created = [\<lparr>Index = 0, LeadID = ''a1'', CreatedAt = 0\<rparr>], Errors = []\<rparr>))
        3
        (replicate 99 (Received (Some \<lparr>ID = [], Name = ''A'', Source = ''web''\<rparr>)
                         \<lparr>rounds = always (Response 200 [] ''{}'') 0, sends = None\<rparr>)
         @ [Received (Some \<lparr>ID = [], Name = ''A'', Source = ''web''\<rparr>)
              \<lparr>rounds = always (Response 200 [] ''{}'') 0, sends = Some 0\<rparr>]))) = 100
   \<and> map length (calls (BulkCreateFromChan
        (codec accepting
           (decoding \<lparr>Total = 100, Success = 100, Failed = 0,
                              Created = [\<lparr>Index = 0, LeadID = ''a1'', CreatedAt = 0\<rparr>], Errors = []\<rparr>))
        3
        (replicate 99 (Received (Some \<lparr>ID = [], Name = ''A'', Source = ''web''\<rparr>)
                         \<lparr>rounds = always (Response 200 [] ''{}'') 0, sends = None\<rparr>)
         @ [Received (Some \<lparr>ID = [], Name = ''A'', Source = ''web''\<rparr>)
              \<lparr>rounds = always (Response 200 [] ''{}'') 0, sends = Some 0\<rparr>,
            Received (Some \<lparr>ID = [], Name = ''A'', Source = ''web''\<rparr>)
              \<lparr>rounds = always (Response 200 [] ''{}'') 0, sends = None\<rparr>]))) = [100, 101]"
  by code_simp

text \<open>
  C6, amended. As long as no send on an outlet is pre-empted by cancellation: the
  pending batch holds at most 100 leads at all times, the moment between the receipt of
  a lead and the flush included; a batch is handed to \<open>BulkCreate\<close> exactly when a
  received lead fills it, when the timer fires, or when the input channel is closed
  with leads pending; and after each such flush the batch is empty, whether
  \<open>BulkCreate\<close> succeeded or failed, unless it panicked on a \<open>nil\<close> lead.
\<close>

theorem batcher_capacity:
  assumes "\<forall>e \<in> set evs. uncancelled e" and "uncancelled ev"
  shows "length (batch (BulkCreateFromChan L n evs)) \<le> maxBatchSize
       \<and> (phase (BulkCreateFromChan L n evs) = Running \<longrightarrow>
            length (pending (BulkCreateFromChan L n evs) ev) \<le> maxBatchSize
          \<and> calls (step L n (BulkCreateFromChan L n evs) ev)
              = (if triggers (BulkCreateFromChan L n evs) ev
                 then calls (BulkCreateFromChan L n evs) @ [pending (BulkCreateFromChan L n evs) ev]
                 else calls (BulkCreateFromChan L n evs))
          \<and> (triggers (BulkCreateFromChan L n evs) ev \<longrightarrow>
                batch (step L n (BulkCreateFromChan L n evs) ev) = []
              \<or> phase (step L n (BulkCreateFromChan L n evs) ev) = Panicked))"
proof -
  have c: "within_capacity (BulkCreateFromChan L n evs)"
    using assms(1) by (rule BulkCreateFromChan_within_capacity)
  then have "length (batch (BulkCreateFromChan L n evs)) \<le> maxBatchSize"
    by (simp add: within_capacity_def)
  moreover have "length (pending (BulkCreateFromChan L n evs) ev) \<le> maxBatchSize"
    if "phase (BulkCreateFromChan L n evs) = Running"
    using c that by (cases ev) (simp_all add: within_capacity_def)
  ultimately show ?thesis
    using step_calls [OF _ assms(2), of "BulkCreateFromChan L n evs" L n] by blast
qed

theorem batcher_capacity_witness:
  "length (batch (BulkCreateFromChan (codec accepting (decoding zeroBulkCreateResult)) 3
      [Received (Some \<lparr>ID = [], Name = ''A'', Source = ''web''\<rparr>)
         \<lparr>rounds = always (Response 200 [] ''{}'') 0, sends = None\<rparr>,
       Received (Some \<lparr>ID = [], Name = ''B'', Source = ''web''\<rparr>)
         \<lparr>rounds = always (Response 200 [] ''{}'') 0, sends = None\<rparr>])) = 2
   \<and> calls (step (codec accepting (decoding zeroBulkCreateResult)) 3
       (BulkCreateFromChan (codec accepting (decoding zeroBulkCreateResult)) 3
         [Received (Some \<lparr>ID = [], Name = ''A'', Source = ''web''\<rparr>)
            \<lparr>rounds = always (Response 200 [] ''{}'') 0, sends = None\<rparr>,
          Received (Some \<lparr>ID = [], Name = ''B'', Source = ''web''\<rparr>)
            \<lparr>rounds = always (Response 200 [] ''{}'') 0, sends = None\<rparr>])
       (TimerFired \<lparr>rounds = always (Response 200 [] ''{}'') 0, sends = None\<rparr>))
     = [[Some \<lparr>ID = [], Name = ''A'', Source = ''web''\<rparr>, Some \<lparr>ID = [], Name = ''B'', Source = ''web''\<rparr>]]
   \<and> batch (step (codec accepting (decoding zeroBulkCreateResult)) 3
       (BulkCreateFromChan (codec accepting (decoding zeroBulkCreateResult)) 3
         [Received (Some \<lparr>ID = [], Name = ''A'', Source = ''web''\<rparr>)
            \<lparr>rounds = always (Response 200 [] ''{}'') 0, sends = None\<rparr>,
          Received (Some \<lparr>ID = [], Name = ''B'', Source = ''web''\<rparr>)
            \<lparr>rounds = always (Response 200 [] ''{}'') 0, sends = None\<rparr>])
       (TimerFired \<lparr>rounds = always (Response 200 [] ''{}'') 0, sends = None\<rparr>)) = []"
proof -
  let ?L = "codec accepting (decoding zeroBulkCreateResult)
              :: (Lead option list, BulkCreateResult) lib"
  let ?env = "\<lparr>rounds = always (Response 200 [] ''{}'') 0, sends = None\<rparr>"
  let ?A = "Some \<lparr>ID = [], Name = ''A'', Source = ''web''\<rparr>"
  let ?B = "Some \<lparr>ID = [], Name = ''B'', Source = ''web''\<rparr>"
  let ?evs = "[Received ?A ?env, Received ?B ?env]"
  have h1: "\<forall>e \<in> set ?evs. uncancelled e" by simp
  have h2: "uncancelled (TimerFired ?env)" by simp
  have s: "BulkCreateFromChan ?L 3 ?evs
             = \<lparr>batch = [?A, ?B], armed = True, results = [], errs = [], calls = [], phase = Running\<rparr>"
    by (simp add: BulkCreateFromChan_def start_def maxBatchSize_def Let_def)
  have p: "step ?L 3 \<lparr>batch = [?A, ?B], armed = True, results = [], errs = [], calls = [], phase = Running\<rparr>
             (TimerFired ?env)
           = \<lparr>batch = [], armed = False, results = [], errs = [], calls = [[?A, ?B]], phase = Running\<rparr>"
    by code_simp
  show ?thesis
    using batcher_capacity [where L = ?L and n = 3 and evs = ?evs and ev = "TimerFired ?env", OF h1 h2]
    unfolding s p by simp
qed

end
